theory Spec2Isabelle
  imports Main "HOL-Library.Word"
begin

section \<open>Strings\<close>

text \<open>
  A JavaScript string is a sequence of 16-bit UTF-16 code units. Source literals are
  ASCII and are written through \<open>js\<close>, which maps every character of an Isabelle
  string literal to the code unit of the same number. The double quote (0x22), the
  apostrophe (0x27) and the backslash (0x5C) are written as numbers where they occur
  alone.
\<close>

type_synonym code_unit = "16 word"
type_synonym jsstring = "code_unit list"
type_synonym byte = "8 word"

definition cu :: "char \<Rightarrow> code_unit" where
  "cu c = of_nat (of_char c)"

definition js :: "string \<Rightarrow> jsstring" where
  "js s = map cu s"

definition is_high_surrogate :: "code_unit \<Rightarrow> bool" where
  "is_high_surrogate c = (0xD800 \<le> c \<and> c \<le> 0xDBFF)"

definition is_low_surrogate :: "code_unit \<Rightarrow> bool" where
  "is_low_surrogate c = (0xDC00 \<le> c \<and> c \<le> 0xDFFF)"

text \<open>
  The code points of a string: a high surrogate followed by a low one is one code
  point, any other surrogate stands alone and is reported as \<open>None\<close>.
\<close>

fun code_points :: "jsstring \<Rightarrow> nat option list" where
  "code_points [] = []"
| "code_points [c] = [if is_high_surrogate c \<or> is_low_surrogate c then None else Some (unat c)]"
| "code_points (c # d # cs) =
     (if is_high_surrogate c \<and> is_low_surrogate d
      then Some (0x10000 + (unat c - 0xD800) * 0x400 + (unat d - 0xDC00)) # code_points cs
      else (if is_high_surrogate c \<or> is_low_surrogate c then None else Some (unat c))
           # code_points (d # cs))"

definition utf8 :: "nat \<Rightarrow> byte list" where
  "utf8 cp =
     (if cp < 0x80 then [of_nat cp]
      else if cp < 0x800 then [of_nat (0xC0 + cp div 0x40), of_nat (0x80 + cp mod 0x40)]
      else if cp < 0x10000 then
        [of_nat (0xE0 + cp div 0x1000), of_nat (0x80 + cp div 0x40 mod 0x40),
         of_nat (0x80 + cp mod 0x40)]
      else
        [of_nat (0xF0 + cp div 0x40000), of_nat (0x80 + cp div 0x1000 mod 0x40),
         of_nat (0x80 + cp div 0x40 mod 0x40), of_nat (0x80 + cp mod 0x40)])"

section \<open>Values, errors and the platform\<close>

text \<open>
  The values the route and the renderer handle are those of JSON, and \<open>undefined\<close>,
  which a read of a missing property gives. An object is the list of its own
  properties in the engine's enumeration order. Numbers are IEEE doubles; their type
  \<open>'n\<close> and the operations on them belong to the platform.
\<close>

datatype 'n jsval =
    JUndefined
  | JNull
  | JBool bool
  | JNum 'n
  | JStr jsstring
  | JArr "'n jsval list"
  | JObj "(jsstring \<times> 'n jsval) list"

text \<open>
  A thrown \<open>Error\<close> object: its class name, its \<open>message\<close>, and its \<open>status\<close>
  property when it has one. None of the error classes below defines \<open>status\<close>. The
  message texts of errors the engine raises are those of V8, except for JSON syntax
  errors, whose text names the offending position and is kept to one fixed string.
\<close>

datatype js_error =
  Thrown (error_name: jsstring) (error_message: jsstring) (error_status: "nat option")

definition Error :: "jsstring \<Rightarrow> js_error" where
  "Error msg = Thrown (js ''Error'') msg None"

definition TypeError :: "jsstring \<Rightarrow> js_error" where
  "TypeError msg = Thrown (js ''TypeError'') msg None"

definition SyntaxError :: "jsstring \<Rightarrow> js_error" where
  "SyntaxError msg = Thrown (js ''SyntaxError'') msg None"

definition URIError :: "jsstring \<Rightarrow> js_error" where
  "URIError msg = Thrown (js ''URIError'') msg None"

definition RangeError :: "jsstring \<Rightarrow> js_error" where
  "RangeError msg = Thrown (js ''RangeError'') msg None"

text \<open>
  What awaiting \<open>fetch\<close> gives: the promise never settles (no timeout is set and the
  service may not answer), it is rejected, which is a \<open>TypeError\<close> with the given
  message, or it resolves to a response with its status code and its body text. An
  awaited call is modelled by an \<open>option\<close>: \<open>None\<close> when it never returns, otherwise
  the exception or the value.
\<close>

record http_response =
  status_code :: nat
  body_text :: jsstring

datatype fetch_outcome = Pending | Rejected jsstring | Resolved http_response

type_synonym 'a awaited = "(js_error + 'a) option"

definition ok :: "http_response \<Rightarrow> bool" where
  "ok response = (200 \<le> status_code response \<and> status_code response \<le> 299)"

text \<open>
  The platform: the network behind \<open>fetch\<close>, a function of the URL, and the number
  operations of the engine (the double a JSON number literal denotes, \<open>Number::toString\<close>,
  the tests for zero and for finiteness).
\<close>

record 'n platform =
  fetch :: "jsstring \<Rightarrow> fetch_outcome"
  number_of_literal :: "jsstring \<Rightarrow> 'n"
  number_to_string :: "'n \<Rightarrow> jsstring"
  number_is_zero :: "'n \<Rightarrow> bool"
  number_is_finite :: "'n \<Rightarrow> bool"

text \<open>
  \<open>get_property v k\<close> is the read \<open>v.k\<close>, for the keys the source reads
  (\<open>user_input\<close>, \<open>show_intermediate_steps\<close>, \<open>response\<close>, \<open>output\<close>, \<open>tool_name\<close>,
  \<open>tool_input\<close>, \<open>tool_output\<close>): none is inherited from a prototype, so the read
  gives the own property or \<open>undefined\<close>, and throws on \<open>null\<close> and \<open>undefined\<close>.
\<close>

fun get_property :: "'n jsval \<Rightarrow> jsstring \<Rightarrow> js_error + 'n jsval" where
  "get_property JUndefined k =
     Inl (TypeError (js ''Cannot read properties of undefined (reading ''
                     @ [0x27] @ k @ [0x27] @ js '')''))"
| "get_property JNull k =
     Inl (TypeError (js ''Cannot read properties of null (reading ''
                     @ [0x27] @ k @ [0x27] @ js '')''))"
| "get_property (JObj ps) k = Inr (case map_of ps k of None \<Rightarrow> JUndefined | Some v \<Rightarrow> v)"
| "get_property (JBool b) k = Inr JUndefined"
| "get_property (JNum n) k = Inr JUndefined"
| "get_property (JStr s) k = Inr JUndefined"
| "get_property (JArr xs) k = Inr JUndefined"

text \<open>\<open>ToBoolean\<close>, as \<open>!x\<close> applies it. A JSON number is never NaN.\<close>

fun truthy :: "'n platform \<Rightarrow> 'n jsval \<Rightarrow> bool" where
  "truthy P JUndefined = False"
| "truthy P JNull = False"
| "truthy P (JBool b) = b"
| "truthy P (JNum n) = (\<not> number_is_zero P n)"
| "truthy P (JStr s) = (s \<noteq> [])"
| "truthy P (JArr xs) = True"
| "truthy P (JObj ps) = True"

text \<open>
  \<open>ToString\<close>. An array is joined with commas, \<open>null\<close> and \<open>undefined\<close> elements
  giving the empty string. An object of JSON has the prototype \<open>Object.prototype\<close> and
  prints as \<open>[object Object]\<close>, unless it has an own property \<open>toString\<close>: that
  property is not callable, \<open>valueOf\<close> gives no primitive, and the conversion throws.
\<close>

fun ToString :: "'n platform \<Rightarrow> 'n jsval \<Rightarrow> js_error + jsstring"
  and join_elements :: "'n platform \<Rightarrow> 'n jsval list \<Rightarrow> js_error + jsstring" where
  "ToString P JUndefined = Inr (js ''undefined'')"
| "ToString P JNull = Inr (js ''null'')"
| "ToString P (JBool b) = Inr (if b then js ''true'' else js ''false'')"
| "ToString P (JNum n) = Inr (number_to_string P n)"
| "ToString P (JStr s) = Inr s"
| "ToString P (JArr xs) = join_elements P xs"
| "ToString P (JObj ps) =
     (if js ''toString'' \<in> fst ` set ps
      then Inl (TypeError (js ''Cannot convert object to primitive value''))
      else Inr (js ''[object Object]''))"
| "join_elements P [] = Inr []"
| "join_elements P (x # xs) =
     (case (if x = JUndefined \<or> x = JNull then Inr [] else ToString P x) of
        Inl e \<Rightarrow> Inl e
      | Inr s \<Rightarrow>
          if xs = [] then Inr s
          else (case join_elements P xs of Inl e \<Rightarrow> Inl e | Inr r \<Rightarrow> Inr (s @ js '','' @ r)))"

section \<open>encodeURIComponent and TextEncoder\<close>

definition hex_digit :: "nat \<Rightarrow> code_unit" where
  "hex_digit d = (if d < 10 then of_nat (48 + d) else of_nat (55 + d))"

definition percent_byte :: "byte \<Rightarrow> jsstring" where
  "percent_byte b = [cu CHR ''%'', hex_digit (unat b div 16), hex_digit (unat b mod 16)]"

text \<open>The characters \<open>encodeURIComponent\<close> leaves as they are: letters, digits and \<open>-_.!~*'()\<close>.\<close>

definition uri_unreserved :: "nat \<Rightarrow> bool" where
  "uri_unreserved cp =
     ((48 \<le> cp \<and> cp \<le> 57) \<or> (65 \<le> cp \<and> cp \<le> 90) \<or> (97 \<le> cp \<and> cp \<le> 122)
      \<or> cp \<in> set (map of_char ''-_.!~*'' @ [0x27] @ map of_char ''()''))"

fun Encode :: "nat option list \<Rightarrow> js_error + jsstring" where
  "Encode [] = Inr []"
| "Encode (None # cps) = Inl (URIError (js ''URI malformed''))"
| "Encode (Some cp # cps) =
     (case Encode cps of
        Inl e \<Rightarrow> Inl e
      | Inr r \<Rightarrow>
          Inr ((if uri_unreserved cp then [of_nat cp] else concat (map percent_byte (utf8 cp)))
               @ r))"

definition encodeURIComponent :: "'n platform \<Rightarrow> 'n jsval \<Rightarrow> js_error + jsstring" where
  "encodeURIComponent P v =
     (case ToString P v of Inl e \<Rightarrow> Inl e | Inr s \<Rightarrow> Encode (code_points s))"

text \<open>
  The UTF-8 encoding of a string, as \<open>TextEncoder\<close> defines it: a lone surrogate is
  encoded as U+FFFD. \<open>encode\<close> takes \<open>undefined\<close> for its default, the empty string.
\<close>

definition usv_utf8 :: "jsstring \<Rightarrow> byte list" where
  "usv_utf8 s =
     concat (map (\<lambda>p. utf8 (case p of None \<Rightarrow> 0xFFFD | Some cp \<Rightarrow> cp)) (code_points s))"

definition TextEncoder_encode :: "'n platform \<Rightarrow> 'n jsval \<Rightarrow> js_error + byte list" where
  "TextEncoder_encode P v =
     (if v = JUndefined then Inr []
      else (case ToString P v of Inl e \<Rightarrow> Inl e | Inr s \<Rightarrow> Inr (usv_utf8 s)))"

section \<open>JSON.parse\<close>

text \<open>
  \<open>JSON.parse\<close> in two passes over the JSON grammar of ECMA-404. The first pass reads
  the text one code unit at a time into tokens. A literal name and a number are read
  to their end and then checked; after either, only white space, a comma or a closing
  bracket may follow.
\<close>

definition is_ws :: "code_unit \<Rightarrow> bool" where
  "is_ws c = (c = 0x20 \<or> c = 0x09 \<or> c = 0x0A \<or> c = 0x0D)"

definition is_digit :: "code_unit \<Rightarrow> bool" where
  "is_digit c = (cu CHR ''0'' \<le> c \<and> c \<le> cu CHR ''9'')"

definition is_lower :: "code_unit \<Rightarrow> bool" where
  "is_lower c = (cu CHR ''a'' \<le> c \<and> c \<le> cu CHR ''z'')"

definition is_number_char :: "code_unit \<Rightarrow> bool" where
  "is_number_char c =
     (is_digit c \<or> c = cu CHR ''-'' \<or> c = cu CHR ''+'' \<or> c = cu CHR ''.''
      \<or> c = cu CHR ''e'' \<or> c = cu CHR ''E'')"

definition hex_value :: "code_unit \<Rightarrow> nat option" where
  "hex_value c =
     (if is_digit c then Some (unat c - 48)
      else if cu CHR ''a'' \<le> c \<and> c \<le> cu CHR ''f'' then Some (unat c - 87)
      else if cu CHR ''A'' \<le> c \<and> c \<le> cu CHR ''F'' then Some (unat c - 55)
      else None)"

datatype token =
    LBrace | RBrace | LBracket | RBracket | Colon | Comma
  | TTrue | TFalse | TNull
  | TString jsstring
  | TNumber jsstring

definition punctuator :: "code_unit \<Rightarrow> token option" where
  "punctuator c =
     (if c = cu CHR ''{'' then Some LBrace
      else if c = cu CHR ''}'' then Some RBrace
      else if c = cu CHR ''['' then Some LBracket
      else if c = cu CHR '']'' then Some RBracket
      else if c = cu CHR '':'' then Some Colon
      else if c = cu CHR '','' then Some Comma
      else None)"

definition word_token :: "jsstring \<Rightarrow> token option" where
  "word_token w =
     (if w = js ''true'' then Some TTrue
      else if w = js ''false'' then Some TFalse
      else if w = js ''null'' then Some TNull
      else None)"

definition escape_char :: "code_unit \<Rightarrow> code_unit option" where
  "escape_char c =
     (if c = 0x22 \<or> c = 0x5C \<or> c = 0x2F then Some c
      else if c = cu CHR ''b'' then Some 0x08
      else if c = cu CHR ''f'' then Some 0x0C
      else if c = cu CHR ''n'' then Some 0x0A
      else if c = cu CHR ''r'' then Some 0x0D
      else if c = cu CHR ''t'' then Some 0x09
      else None)"

definition skip_minus :: "jsstring \<Rightarrow> jsstring" where
  "skip_minus cs = (case cs of [] \<Rightarrow> [] | c # r \<Rightarrow> if c = cu CHR ''-'' then r else cs)"

definition skip_sign :: "jsstring \<Rightarrow> jsstring" where
  "skip_sign cs =
     (case cs of [] \<Rightarrow> [] | c # r \<Rightarrow> if c = cu CHR ''-'' \<or> c = cu CHR ''+'' then r else cs)"

definition skip_int :: "jsstring \<Rightarrow> jsstring option" where
  "skip_int cs =
     (case takeWhile is_digit cs of
        [] \<Rightarrow> None
      | d # ds \<Rightarrow> if d = cu CHR ''0'' \<and> ds \<noteq> [] then None else Some (dropWhile is_digit cs))"

definition skip_digits1 :: "jsstring \<Rightarrow> jsstring option" where
  "skip_digits1 cs = (if takeWhile is_digit cs = [] then None else Some (dropWhile is_digit cs))"

definition skip_frac :: "jsstring \<Rightarrow> jsstring option" where
  "skip_frac cs =
     (case cs of [] \<Rightarrow> Some [] | c # r \<Rightarrow> if c = cu CHR ''.'' then skip_digits1 r else Some cs)"

definition skip_exp :: "jsstring \<Rightarrow> jsstring option" where
  "skip_exp cs =
     (case cs of
        [] \<Rightarrow> Some []
      | c # r \<Rightarrow>
          if c = cu CHR ''e'' \<or> c = cu CHR ''E'' then skip_digits1 (skip_sign r) else Some cs)"

definition valid_number :: "jsstring \<Rightarrow> bool" where
  "valid_number n =
     (case skip_int (skip_minus n) of
        None \<Rightarrow> False
      | Some r1 \<Rightarrow> (case skip_frac r1 of None \<Rightarrow> False | Some r2 \<Rightarrow> skip_exp r2 = Some []))"

datatype lex_mode =
    Between
  | InWord jsstring
  | InNumber jsstring
  | InString jsstring
  | InEscape jsstring
  | InUnicode jsstring "nat list"

definition after_scalar :: "code_unit \<Rightarrow> token list option" where
  "after_scalar c =
     (if is_ws c then Some []
      else (case punctuator c of
              None \<Rightarrow> None
            | Some p \<Rightarrow> if p = LBrace \<or> p = LBracket \<or> p = Colon then None else Some [p]))"

fun tokenize :: "lex_mode \<Rightarrow> token list \<Rightarrow> jsstring \<Rightarrow> token list option" where
  "tokenize Between ts [] = Some ts"
| "tokenize (InWord w) ts [] = (case word_token w of None \<Rightarrow> None | Some t \<Rightarrow> Some (ts @ [t]))"
| "tokenize (InNumber n) ts [] = (if valid_number n then Some (ts @ [TNumber n]) else None)"
| "tokenize (InString s) ts [] = None"
| "tokenize (InEscape s) ts [] = None"
| "tokenize (InUnicode s hs) ts [] = None"
| "tokenize Between ts (c # cs) =
     (if is_ws c then tokenize Between ts cs
      else if c = 0x22 then tokenize (InString []) ts cs
      else if c = cu CHR ''-'' \<or> is_digit c then tokenize (InNumber [c]) ts cs
      else if is_lower c then tokenize (InWord [c]) ts cs
      else (case punctuator c of None \<Rightarrow> None | Some p \<Rightarrow> tokenize Between (ts @ [p]) cs))"
| "tokenize (InWord w) ts (c # cs) =
     (if is_lower c then tokenize (InWord (w @ [c])) ts cs
      else (case word_token w of
              None \<Rightarrow> None
            | Some t \<Rightarrow>
                (case after_scalar c of None \<Rightarrow> None | Some ps \<Rightarrow> tokenize Between (ts @ t # ps) cs)))"
| "tokenize (InNumber n) ts (c # cs) =
     (if is_number_char c then tokenize (InNumber (n @ [c])) ts cs
      else if valid_number n then
        (case after_scalar c of
           None \<Rightarrow> None
         | Some ps \<Rightarrow> tokenize Between (ts @ TNumber n # ps) cs)
      else None)"
| "tokenize (InString s) ts (c # cs) =
     (if c = 0x22 then tokenize Between (ts @ [TString s]) cs
      else if c = 0x5C then tokenize (InEscape s) ts cs
      else if c < 0x20 then None
      else tokenize (InString (s @ [c])) ts cs)"
| "tokenize (InEscape s) ts (c # cs) =
     (if c = cu CHR ''u'' then tokenize (InUnicode s []) ts cs
      else (case escape_char c of None \<Rightarrow> None | Some e \<Rightarrow> tokenize (InString (s @ [e])) ts cs))"
| "tokenize (InUnicode s hs) ts (c # cs) =
     (case hex_value c of
        None \<Rightarrow> None
      | Some h \<Rightarrow>
          if length hs = 3
          then tokenize (InString (s @ [of_nat (foldl (\<lambda>a d. 16 * a + d) 0 (hs @ [h]))])) ts cs
          else tokenize (InUnicode s (hs @ [h])) ts cs)"

text \<open>
  The second pass reads the tokens one at a time, with a stack of the arrays and
  objects that are still open. A property is added as \<open>CreateDataProperty\<close> does: a
  repeated key keeps its place and takes the new value; a new key that is an array
  index (the canonical decimal of a number below \<open>2^32 - 1\<close>) goes among the index
  keys in ascending order, ahead of all other keys; any other new key goes last.
\<close>

definition decimal :: "jsstring \<Rightarrow> nat" where
  "decimal ds = foldl (\<lambda>a c. 10 * a + (unat c - 48)) 0 ds"

definition array_index :: "jsstring \<Rightarrow> nat option" where
  "array_index k =
     (if k \<noteq> [] \<and> list_all is_digit k \<and> (k = [cu CHR ''0''] \<or> hd k \<noteq> cu CHR ''0'')
         \<and> decimal k < 4294967295
      then Some (decimal k) else None)"

fun insert_index ::
  "nat \<Rightarrow> jsstring \<Rightarrow> 'v \<Rightarrow> (jsstring \<times> 'v) list \<Rightarrow> (jsstring \<times> 'v) list" where
  "insert_index i k v [] = [(k, v)]"
| "insert_index i k v ((k', v') # ps) =
     (case array_index k' of
        None \<Rightarrow> (k, v) # (k', v') # ps
      | Some j \<Rightarrow> if j < i then (k', v') # insert_index i k v ps else (k, v) # (k', v') # ps)"

definition CreateDataProperty ::
  "(jsstring \<times> 'v) list \<Rightarrow> jsstring \<Rightarrow> 'v \<Rightarrow> (jsstring \<times> 'v) list" where
  "CreateDataProperty ps k v =
     (if k \<in> fst ` set ps then map (\<lambda>(k', v'). if k' = k then (k', v) else (k', v')) ps
      else (case array_index k of None \<Rightarrow> ps @ [(k, v)] | Some i \<Rightarrow> insert_index i k v ps))"

datatype 'n frame =
    ArrayFrame "'n jsval list"
  | ObjectFrame "(jsstring \<times> 'n jsval) list" jsstring

datatype 'n pstate =
    ExpectValue "'n frame list"
  | ExpectValueOrClose "'n frame list"
  | ExpectKeyOrClose "'n frame list"
  | ExpectKey "(jsstring \<times> 'n jsval) list" "'n frame list"
  | ExpectColon "(jsstring \<times> 'n jsval) list" jsstring "'n frame list"
  | AfterValue "'n jsval" "'n frame list"

definition begin_value :: "'n platform \<Rightarrow> 'n frame list \<Rightarrow> token \<Rightarrow> 'n pstate option" where
  "begin_value P stk t =
     (case t of
        LBracket \<Rightarrow> Some (ExpectValueOrClose stk)
      | LBrace \<Rightarrow> Some (ExpectKeyOrClose stk)
      | TTrue \<Rightarrow> Some (AfterValue (JBool True) stk)
      | TFalse \<Rightarrow> Some (AfterValue (JBool False) stk)
      | TNull \<Rightarrow> Some (AfterValue JNull stk)
      | TString s \<Rightarrow> Some (AfterValue (JStr s) stk)
      | TNumber n \<Rightarrow> Some (AfterValue (JNum (number_of_literal P n)) stk)
      | _ \<Rightarrow> None)"

definition step :: "'n platform \<Rightarrow> 'n pstate \<Rightarrow> token \<Rightarrow> 'n pstate option" where
  "step P st t =
     (case st of
        ExpectValue stk \<Rightarrow> begin_value P stk t
      | ExpectValueOrClose stk \<Rightarrow>
          if t = RBracket then Some (AfterValue (JArr []) stk)
          else begin_value P (ArrayFrame [] # stk) t
      | ExpectKeyOrClose stk \<Rightarrow>
          (case t of
             RBrace \<Rightarrow> Some (AfterValue (JObj []) stk)
           | TString k \<Rightarrow> Some (ExpectColon [] k stk)
           | _ \<Rightarrow> None)
      | ExpectKey ps stk \<Rightarrow> (case t of TString k \<Rightarrow> Some (ExpectColon ps k stk) | _ \<Rightarrow> None)
      | ExpectColon ps k stk \<Rightarrow>
          if t = Colon then Some (ExpectValue (ObjectFrame ps k # stk)) else None
      | AfterValue v stk \<Rightarrow>
          (case stk of
             [] \<Rightarrow> None
           | ArrayFrame xs # rest \<Rightarrow>
               (case t of
                  Comma \<Rightarrow> Some (ExpectValue (ArrayFrame (xs @ [v]) # rest))
                | RBracket \<Rightarrow> Some (AfterValue (JArr (xs @ [v])) rest)
                | _ \<Rightarrow> None)
           | ObjectFrame ps k # rest \<Rightarrow>
               (case t of
                  Comma \<Rightarrow> Some (ExpectKey (CreateDataProperty ps k v) rest)
                | RBrace \<Rightarrow> Some (AfterValue (JObj (CreateDataProperty ps k v)) rest)
                | _ \<Rightarrow> None)))"

fun parse_tokens :: "'n platform \<Rightarrow> 'n pstate \<Rightarrow> token list \<Rightarrow> 'n jsval option" where
  "parse_tokens P st [] = (case st of AfterValue v [] \<Rightarrow> Some v | _ \<Rightarrow> None)"
| "parse_tokens P st (t # ts) =
     (case step P st t of None \<Rightarrow> None | Some st' \<Rightarrow> parse_tokens P st' ts)"

definition JSON_parse :: "'n platform \<Rightarrow> jsstring \<Rightarrow> js_error + 'n jsval" where
  "JSON_parse P text =
     (case tokenize Between [] text of
        None \<Rightarrow> Inl (SyntaxError (js ''Unexpected token in JSON''))
      | Some ts \<Rightarrow>
          (case parse_tokens P (ExpectValue []) ts of
             None \<Rightarrow> Inl (SyntaxError (js ''Unexpected token in JSON''))
           | Some v \<Rightarrow> Inr v))"


section \<open>JSON.stringify\<close>

text \<open>
  \<open>JSON.stringify(value, null, space)\<close>: \<open>gap\<close> is the indentation unit, \<open>space\<close>
  blanks and at most ten. A property whose value is \<open>undefined\<close> is left out, an
  \<open>undefined\<close> array element is written \<open>null\<close>, and \<open>undefined\<close> itself has no
  JSON text. A number that is not finite is written \<open>null\<close>.
\<close>

definition hex4 :: "nat \<Rightarrow> jsstring" where
  "hex4 n =
     map (\<lambda>d. if d < 10 then of_nat (48 + d) else of_nat (87 + d))
       [n div 4096 mod 16, n div 256 mod 16, n div 16 mod 16, n mod 16]"

definition quote_unit :: "code_unit \<Rightarrow> jsstring" where
  "quote_unit c =
     (if c = 0x08 then [0x5C, cu CHR ''b'']
      else if c = 0x09 then [0x5C, cu CHR ''t'']
      else if c = 0x0A then [0x5C, cu CHR ''n'']
      else if c = 0x0C then [0x5C, cu CHR ''f'']
      else if c = 0x0D then [0x5C, cu CHR ''r'']
      else if c = 0x22 then [0x5C, 0x22]
      else if c = 0x5C then [0x5C, 0x5C]
      else if c < 0x20 \<or> is_high_surrogate c \<or> is_low_surrogate c
        then [0x5C, cu CHR ''u''] @ hex4 (unat c)
      else [c])"

fun quote_units :: "jsstring \<Rightarrow> jsstring" where
  "quote_units [] = []"
| "quote_units [c] = quote_unit c"
| "quote_units (c # d # cs) =
     (if is_high_surrogate c \<and> is_low_surrogate d then c # d # quote_units cs
      else quote_unit c @ quote_units (d # cs))"

definition QuoteJSONString :: "jsstring \<Rightarrow> jsstring" where
  "QuoteJSONString s = [0x22] @ quote_units s @ [0x22]"

fun join_with :: "jsstring \<Rightarrow> jsstring list \<Rightarrow> jsstring" where
  "join_with sep [] = []"
| "join_with sep [x] = x"
| "join_with sep (x # y # ys) = x @ sep @ join_with sep (y # ys)"

definition wrap_items ::
  "code_unit \<Rightarrow> code_unit \<Rightarrow> jsstring \<Rightarrow> jsstring \<Rightarrow> jsstring list \<Rightarrow> jsstring" where
  "wrap_items opening closing gap stepback items =
     (if items = [] then [opening, closing]
      else if gap = [] then [opening] @ join_with (js '','') items @ [closing]
      else [opening, 0x0A] @ stepback @ gap
           @ join_with ([cu CHR '','', 0x0A] @ stepback @ gap) items
           @ [0x0A] @ stepback @ [closing])"

fun SerializeJSONProperty ::
    "'n platform \<Rightarrow> jsstring \<Rightarrow> jsstring \<Rightarrow> 'n jsval \<Rightarrow> jsstring option"
  and serialize_elements ::
    "'n platform \<Rightarrow> jsstring \<Rightarrow> jsstring \<Rightarrow> 'n jsval list \<Rightarrow> jsstring list"
  and serialize_properties ::
    "'n platform \<Rightarrow> jsstring \<Rightarrow> jsstring \<Rightarrow> (jsstring \<times> 'n jsval) list \<Rightarrow> jsstring list"
  where
  "SerializeJSONProperty P gap indent JUndefined = None"
| "SerializeJSONProperty P gap indent JNull = Some (js ''null'')"
| "SerializeJSONProperty P gap indent (JBool b) = Some (if b then js ''true'' else js ''false'')"
| "SerializeJSONProperty P gap indent (JNum n) =
     Some (if number_is_finite P n then number_to_string P n else js ''null'')"
| "SerializeJSONProperty P gap indent (JStr s) = Some (QuoteJSONString s)"
| "SerializeJSONProperty P gap indent (JArr xs) =
     Some (wrap_items (cu CHR ''['') (cu CHR '']'') gap indent
             (serialize_elements P gap (indent @ gap) xs))"
| "SerializeJSONProperty P gap indent (JObj ps) =
     Some (wrap_items (cu CHR ''{'') (cu CHR ''}'') gap indent
             (serialize_properties P gap (indent @ gap) ps))"
| "serialize_elements P gap indent [] = []"
| "serialize_elements P gap indent (x # xs) =
     (case SerializeJSONProperty P gap indent x of None \<Rightarrow> js ''null'' | Some s \<Rightarrow> s)
     # serialize_elements P gap indent xs"
| "serialize_properties P gap indent [] = []"
| "serialize_properties P gap indent ((k, v) # ps) =
     (case SerializeJSONProperty P gap indent v of
        None \<Rightarrow> serialize_properties P gap indent ps
      | Some s \<Rightarrow>
          (QuoteJSONString k @ [cu CHR '':''] @ (if gap = [] then [] else [0x20]) @ s)
          # serialize_properties P gap indent ps)"

definition JSON_stringify :: "'n platform \<Rightarrow> 'n jsval \<Rightarrow> nat \<Rightarrow> jsstring option" where
  "JSON_stringify P v space = SerializeJSONProperty P (replicate (min space 10) 0x20) [] v"

section \<open>JSON values\<close>

text \<open>
  A JSON value is a value in which \<open>undefined\<close> occurs nowhere. \<open>frame_ok\<close> and
  \<open>state_ok\<close> say the same of what the parser holds while it reads.
\<close>

fun is_json :: "'n jsval \<Rightarrow> bool" where
  "is_json JUndefined = False"
| "is_json JNull = True"
| "is_json (JBool b) = True"
| "is_json (JNum n) = True"
| "is_json (JStr s) = True"
| "is_json (JArr xs) = (\<forall>x \<in> set xs. is_json x)"
| "is_json (JObj ps) = (\<forall>p \<in> set ps. is_json (snd p))"

fun frame_ok :: "'n frame \<Rightarrow> bool" where
  "frame_ok (ArrayFrame xs) = (\<forall>x \<in> set xs. is_json x)"
| "frame_ok (ObjectFrame ps k) = (\<forall>p \<in> set ps. is_json (snd p))"

fun state_ok :: "'n pstate \<Rightarrow> bool" where
  "state_ok (ExpectValue stk) = (\<forall>f \<in> set stk. frame_ok f)"
| "state_ok (ExpectValueOrClose stk) = (\<forall>f \<in> set stk. frame_ok f)"
| "state_ok (ExpectKeyOrClose stk) = (\<forall>f \<in> set stk. frame_ok f)"
| "state_ok (ExpectKey ps stk) =
     ((\<forall>p \<in> set ps. is_json (snd p)) \<and> (\<forall>f \<in> set stk. frame_ok f))"
| "state_ok (ExpectColon ps k stk) =
     ((\<forall>p \<in> set ps. is_json (snd p)) \<and> (\<forall>f \<in> set stk. frame_ok f))"
| "state_ok (AfterValue v stk) = (is_json v \<and> (\<forall>f \<in> set stk. frame_ok f))"

section \<open>The message adapter\<close>

text \<open>
  \<open>VercelChatMessage\<close> is the wire shape \<open>{ role, content }\<close> of the chat client;
  the adapter reads no other field of it.
\<close>

record VercelChatMessage =
  role :: jsstring
  content :: jsstring

text \<open>
  The structured messages. \<open>HumanMessage\<close>, \<open>AIMessage\<close>, \<open>SystemMessage\<close> and
  \<open>ChatMessage\<close> are the classes the route imports; \<open>OtherMessage\<close> stands for any
  other subclass of \<open>BaseMessage\<close>, given by what \<open>getType()\<close>, \<open>content\<close> and
  \<open>tool_calls\<close> read on it (\<open>None\<close> for \<open>undefined\<close>). An \<open>AIMessage\<close> always
  carries a list of tool calls, empty when it is built from a content string alone.
  \<open>getType()\<close> is \<open>human\<close>, \<open>ai\<close> and \<open>system\<close> for the first three classes and
  \<open>generic\<close> for a \<open>ChatMessage\<close>, whatever its role. The content type \<open>'c\<close> is
  left open: a string or a list of content parts.
\<close>

datatype ('c, 't) BaseMessage =
    HumanMessage 'c
  | AIMessage 'c "'t list"
  | SystemMessage 'c
  | ChatMessage 'c jsstring
  | OtherMessage jsstring 'c "'t list option"

fun getType :: "('c, 't) BaseMessage \<Rightarrow> jsstring" where
  "getType (HumanMessage c) = js ''human''"
| "getType (AIMessage c ts) = js ''ai''"
| "getType (SystemMessage c) = js ''system''"
| "getType (ChatMessage c r) = js ''generic''"
| "getType (OtherMessage tag c ts) = tag"

fun message_content :: "('c, 't) BaseMessage \<Rightarrow> 'c" where
  "message_content (HumanMessage c) = c"
| "message_content (AIMessage c ts) = c"
| "message_content (SystemMessage c) = c"
| "message_content (ChatMessage c r) = c"
| "message_content (OtherMessage tag c ts) = c"

fun message_tool_calls :: "('c, 't) BaseMessage \<Rightarrow> 't list option" where
  "message_tool_calls (AIMessage c ts) = Some ts"
| "message_tool_calls (OtherMessage tag c ts) = ts"
| "message_tool_calls (HumanMessage c) = None"
| "message_tool_calls (SystemMessage c) = None"
| "message_tool_calls (ChatMessage c r) = None"

text \<open>
  The object literal that \<open>convertLangChainMessageToVercelMessage\<close> returns:
  \<open>{ content, role }\<close>, or \<open>{ content, role, tool_calls }\<close> in the \<open>ai\<close> branch, where
  the key is present and holds whatever the message's \<open>tool_calls\<close> reads.
\<close>

datatype ('c, 't) VercelShape =
    Plain 'c jsstring
  | WithToolCalls 'c jsstring "'t list option"

fun shape_content :: "('c, 't) VercelShape \<Rightarrow> 'c" where
  "shape_content (Plain c r) = c"
| "shape_content (WithToolCalls c r ts) = c"

fun has_tool_calls_field :: "('c, 't) VercelShape \<Rightarrow> bool" where
  "has_tool_calls_field (Plain c r) = False"
| "has_tool_calls_field (WithToolCalls c r ts) = True"

definition convertVercelMessageToLangChainMessage ::
  "VercelChatMessage \<Rightarrow> (jsstring, 't) BaseMessage" where
  "convertVercelMessageToLangChainMessage message =
     (if role message = js ''user'' then HumanMessage (content message)
      else if role message = js ''assistant'' then AIMessage (content message) []
      else ChatMessage (content message) (role message))"

definition convertLangChainMessageToVercelMessage ::
  "('c, 't) BaseMessage \<Rightarrow> ('c, 't) VercelShape" where
  "convertLangChainMessageToVercelMessage message =
     (if getType message = js ''human'' then Plain (message_content message) (js ''user'')
      else if getType message = js ''ai'' then
        WithToolCalls (message_content message) (js ''assistant'') (message_tool_calls message)
      else Plain (message_content message) (getType message))"

section \<open>The chat route handler\<close>

text \<open>
  A request is read only through \<open>req.json()\<close>, which parses the text of its body.
\<close>

record NextRequest =
  request_body :: jsstring

definition req_json :: "'n platform \<Rightarrow> NextRequest \<Rightarrow> js_error + 'n jsval" where
  "req_json P req = JSON_parse P (request_body req)"

definition response_json :: "'n platform \<Rightarrow> http_response \<Rightarrow> js_error + 'n jsval" where
  "response_json P response = JSON_parse P (body_text response)"

definition fetchGitHubTools :: "'n platform \<Rightarrow> 'n jsval \<Rightarrow> 'n jsval awaited" where
  "fetchGitHubTools P userInput =
     (case encodeURIComponent P userInput of
        Inl e \<Rightarrow> Some (Inl e)
      | Inr encoded \<Rightarrow>
          (case fetch P (js ''http://127.0.0.1:8000/github-toolkit?user_input='' @ encoded) of
             Pending \<Rightarrow> None
           | Rejected msg \<Rightarrow> Some (Inl (TypeError msg))
           | Resolved response \<Rightarrow>
               if \<not> ok response then Some (Inl (Error (js ''Failed to fetch GitHub Toolkit'')))
               else Some (response_json P response)))"

text \<open>
  A \<open>ReadableStream\<close> as its controller sees it: the chunks enqueued so far and
  whether it is closed. The constructor runs \<open>start\<close> on the empty open stream, and an
  exception of \<open>start\<close> is one of the constructor.
\<close>

record stream =
  chunks :: "byte list list"
  closed :: bool

definition enqueue :: "byte list \<Rightarrow> stream \<Rightarrow> js_error + stream" where
  "enqueue chunk s =
     (if closed s then Inl (TypeError (js ''Invalid state: Controller is already closed''))
      else Inr (s\<lparr>chunks := chunks s @ [chunk]\<rparr>))"

definition close :: "stream \<Rightarrow> js_error + stream" where
  "close s =
     (if closed s then Inl (TypeError (js ''Invalid state: Controller is already closed''))
      else Inr (s\<lparr>closed := True\<rparr>))"

definition ReadableStream :: "(stream \<Rightarrow> js_error + stream) \<Rightarrow> js_error + stream" where
  "ReadableStream start = start \<lparr>chunks = [], closed = False\<rparr>"

text \<open>
  A response: its status and its body, which is the JSON text of \<open>NextResponse.json\<close>
  or the stream of a \<open>StreamingTextResponse\<close>. \<open>NextResponse.json\<close> builds its
  response with \<open>Response.json\<close>, which serialises the data, then checks that the
  status lies in 200..599 (a \<open>RangeError\<close> otherwise), and then, as the response has a
  body, that the status is not a null body status of the Fetch standard (a
  \<open>TypeError\<close> otherwise).
\<close>

definition null_body_status :: "nat \<Rightarrow> bool" where
  "null_body_status st = (st = 101 \<or> st = 103 \<or> st = 204 \<or> st = 205 \<or> st = 304)"

datatype response_body = JsonBody jsstring | StreamBody stream

record response =
  status :: nat
  body :: response_body

definition StreamingTextResponse :: "stream \<Rightarrow> response" where
  "StreamingTextResponse s = \<lparr>status = 200, body = StreamBody s\<rparr>"

definition NextResponse_json :: "'n platform \<Rightarrow> 'n jsval \<Rightarrow> nat \<Rightarrow> js_error + response" where
  "NextResponse_json P data st =
     (case JSON_stringify P data 0 of
        None \<Rightarrow> Inl (TypeError (js ''Value is not JSON serializable''))
      | Some text \<Rightarrow>
          if \<not> (200 \<le> st \<and> st \<le> 599) then
            Inl (RangeError (js ''init[status] must be in the range of 200 to 599, inclusive.''))
          else if null_body_status st then
            Inl (TypeError (js ''Response with null body status cannot have body''))
          else Inr \<lparr>status = st, body = JsonBody text\<rparr>)"

text \<open>
  The \<open>try\<close> block of \<open>POST\<close>: \<open>Some (Inl e)\<close> is the exception it raises, \<open>None\<close>
  the request that waits for the toolkit for ever.
\<close>

definition POST_try :: "'n platform \<Rightarrow> NextRequest \<Rightarrow> response awaited" where
  "POST_try P req =
     (case req_json P req of
        Inl e \<Rightarrow> Some (Inl e)
      | Inr parsed \<Rightarrow>
     (case get_property parsed (js ''user_input'') of
        Inl e \<Rightarrow> Some (Inl e)
      | Inr userInput \<Rightarrow>
     (case get_property parsed (js ''show_intermediate_steps'') of
        Inl e \<Rightarrow> Some (Inl e)
      | Inr returnIntermediateSteps \<Rightarrow>
     (case fetchGitHubTools P userInput of
        None \<Rightarrow> None
      | Some (Inl e) \<Rightarrow> Some (Inl e)
      | Some (Inr toolsResponse) \<Rightarrow>
     Some
     (case get_property toolsResponse (js ''response'') of
        Inl e \<Rightarrow> Inl e
      | Inr responseContent \<Rightarrow>
          if \<not> truthy P returnIntermediateSteps then
            (case ReadableStream (\<lambda>controller.
                    case TextEncoder_encode P responseContent of
                      Inl e \<Rightarrow> Inl e
                    | Inr chunk \<Rightarrow>
                        (case enqueue chunk controller of
                           Inl e \<Rightarrow> Inl e
                         | Inr controller' \<Rightarrow> close controller')) of
               Inl e \<Rightarrow> Inl e
             | Inr transformStream \<Rightarrow> Inr (StreamingTextResponse transformStream))
          else
            (case get_property responseContent (js ''output'') of
               Inl e \<Rightarrow> Inl e
             | Inr output \<Rightarrow>
                 NextResponse_json P
                   (JObj [(js ''messages'',
                           JArr [JObj [(js ''content'', output),
                                       (js ''role'', JStr (js ''assistant''))]])])
                   200))))))"

text \<open>The \<open>catch\<close> clause: \<open>e.status ?? 500\<close> is the status when the error has one.\<close>

definition POST_catch :: "'n platform \<Rightarrow> js_error \<Rightarrow> js_error + response" where
  "POST_catch P e =
     NextResponse_json P (JObj [(js ''error'', JStr (error_message e))])
       (case error_status e of None \<Rightarrow> 500 | Some s \<Rightarrow> s)"

definition POST :: "'n platform \<Rightarrow> NextRequest \<Rightarrow> response awaited" where
  "POST P req =
     (case POST_try P req of
        None \<Rightarrow> None
      | Some (Inl e) \<Rightarrow> Some (POST_catch P e)
      | Some (Inr r) \<Rightarrow> Some (Inr r))"

section \<open>The tool response renderer\<close>

text \<open>
  The element tree a component returns: JSX text, a JavaScript value in braces, or an
  element with its tag or component name, its \<open>className\<close> when it has one, and its
  children. \<open>Code\<close> elements are those of the component of \<open>ui/code\<close>.
\<close>

datatype 'n node =
    Text jsstring
  | Expr "'n jsval"
  | Element jsstring "jsstring option" "'n node list"

fun expressions :: "'n node \<Rightarrow> 'n jsval list" where
  "expressions (Text s) = []"
| "expressions (Expr v) = [v]"
| "expressions (Element tag cls kids) = concat (map expressions kids)"

text \<open>
  What a call of \<open>IntermediateStep\<close> leaves: the lines it wrote with \<open>console.error\<close>
  (the label and the error) and what it returned, \<open>None\<close> for \<open>null\<close>.
\<close>

record 'n rendering =
  console :: "(jsstring \<times> js_error) list"
  returned :: "'n node option"

definition stringified :: "'n platform \<Rightarrow> 'n jsval \<Rightarrow> nat \<Rightarrow> 'n jsval" where
  "stringified P v space = (case JSON_stringify P v space of None \<Rightarrow> JUndefined | Some s \<Rightarrow> JStr s)"

definition tool_execution_view :: "'n jsval \<Rightarrow> 'n jsval \<Rightarrow> 'n jsval \<Rightarrow> 'n node" where
  "tool_execution_view name input output =
     Element (js ''div'') (Some (js ''mx-auto mb-8 max-w-[768px]''))
       [Element (js ''div'') (Some (js ''rounded-lg border bg-muted p-4''))
          [Element (js ''div'') (Some (js ''mb-2 flex items-center''))
             [Element (js ''span'') (Some (js ''mr-2 text-sm font-semibold''))
                [Text ([0xD83D, 0xDEE0, 0xFE0F] @ js '' Tool Execution:'')],
              Element (js ''code'') (Some (js ''rounded bg-primary px-1 py-0.5 text-sm''))
                [Expr name]],
           Element (js ''div'') (Some (js ''mb-4''))
             [Element (js ''div'') (Some (js ''text-sm font-semibold text-muted-foreground''))
                [Text (js ''Input:'')],
              Element (js ''Code'') (Some (js ''mt-1 text-sm'')) [Expr input]],
           Element (js ''div'') None
             [Element (js ''div'') (Some (js ''text-sm font-semibold text-muted-foreground''))
                [Text (js ''Output:'')],
              Element (js ''Code'') (Some (js ''mt-1 text-sm'')) [Expr output]]]]"

definition IntermediateStep_try :: "'n platform \<Rightarrow> VercelChatMessage \<Rightarrow> js_error + 'n node" where
  "IntermediateStep_try P message =
     (case JSON_parse P (content message) of
        Inl e \<Rightarrow> Inl e
      | Inr toolData \<Rightarrow>
     (case get_property toolData (js ''tool_name'') of
        Inl e \<Rightarrow> Inl e
      | Inr tool_name \<Rightarrow>
     (case get_property toolData (js ''tool_input'') of
        Inl e \<Rightarrow> Inl e
      | Inr tool_input \<Rightarrow>
     (case get_property toolData (js ''tool_output'') of
        Inl e \<Rightarrow> Inl e
      | Inr tool_output \<Rightarrow>
          Inr (tool_execution_view tool_name
                 (stringified P tool_input 2)
                 (case tool_output of
                    JStr s \<Rightarrow> JStr s
                  | _ \<Rightarrow> stringified P tool_output 2))))))"

definition IntermediateStep :: "'n platform \<Rightarrow> VercelChatMessage \<Rightarrow> 'n rendering" where
  "IntermediateStep P message =
     (case IntermediateStep_try P message of
        Inl error \<Rightarrow> \<lparr>console = [(js ''Error parsing tool data:'', error)], returned = None\<rparr>
      | Inr element \<Rightarrow> \<lparr>console = [], returned = Some element\<rparr>)"

section \<open>A platform for examples\<close>

text \<open>
  A platform whose network answers one URL with a given status and body and rejects
  every other request. Its numbers are the texts of their literals, which is enough
  for JSON without numbers.
\<close>

definition toolkit_at :: "jsstring \<Rightarrow> nat \<Rightarrow> jsstring \<Rightarrow> jsstring platform" where
  "toolkit_at url code reply =
     \<lparr>fetch = (\<lambda>u. if u = url then Resolved \<lparr>status_code = code, body_text = reply\<rparr>
                    else Rejected (js ''fetch failed'')),
      number_of_literal = (\<lambda>n. n),
      number_to_string = (\<lambda>n. n),
      number_is_zero = (\<lambda>n. n = js ''0''),
      number_is_finite = (\<lambda>n. True)\<rparr>"

section \<open>Properties\<close>

subsection \<open>The errors of the platform carry no status\<close>

lemma error_status_classes [simp]:
  "error_status (Error m) = None" "error_status (TypeError m) = None"
  "error_status (SyntaxError m) = None" "error_status (URIError m) = None"
  "error_status (RangeError m) = None"
  by (simp_all add: Error_def TypeError_def SyntaxError_def URIError_def RangeError_def)

lemma error_message_classes [simp]:
  "error_message (Error m) = m" "error_message (TypeError m) = m"
  "error_message (SyntaxError m) = m" "error_message (URIError m) = m"
  "error_message (RangeError m) = m"
  by (simp_all add: Error_def TypeError_def SyntaxError_def URIError_def RangeError_def)

lemma JSON_parse_error_status: "JSON_parse P t = Inl e \<Longrightarrow> error_status e = None"
  by (auto simp: JSON_parse_def split: option.splits)

lemma get_property_error_status: "get_property v k = Inl e \<Longrightarrow> error_status e = None"
  by (cases v) auto

lemma get_property_other_key: "get_property v k = Inr x \<Longrightarrow> \<exists>y. get_property v k' = Inr y"
  by (cases v) auto

lemma ToString_error_status:
  "ToString P v = Inl e \<Longrightarrow> error_status e = None"
  "join_elements P xs = Inl e \<Longrightarrow> error_status e = None"
  by (induction P v and P xs rule: ToString_join_elements.induct)
     (auto split: if_splits sum.splits)

lemma Encode_error_status: "Encode cps = Inl e \<Longrightarrow> error_status e = None"
  by (induction cps rule: Encode.induct) (auto split: sum.splits)

lemma encodeURIComponent_error_status:
  "encodeURIComponent P v = Inl e \<Longrightarrow> error_status e = None"
  by (auto simp: encodeURIComponent_def split: sum.splits
      dest: ToString_error_status Encode_error_status)

lemma TextEncoder_encode_error_status:
  "TextEncoder_encode P v = Inl e \<Longrightarrow> error_status e = None"
  by (auto simp: TextEncoder_encode_def split: if_splits sum.splits dest: ToString_error_status)

lemma fetchGitHubTools_error_status:
  "fetchGitHubTools P v = Some (Inl e) \<Longrightarrow> error_status e = None"
  by (auto simp: fetchGitHubTools_def response_json_def
      split: sum.splits fetch_outcome.splits if_splits
      dest: encodeURIComponent_error_status JSON_parse_error_status)

lemma NextResponse_json_error_status:
  "NextResponse_json P v st = Inl e \<Longrightarrow> error_status e = None"
  by (auto simp: NextResponse_json_def split: option.splits if_splits)

lemma stream_error_status:
  "enqueue chunk s = Inl e \<Longrightarrow> error_status e = None"
  "close s = Inl e \<Longrightarrow> error_status e = None"
  by (auto simp: enqueue_def close_def split: if_splits)

lemma POST_try_error_status: "POST_try P req = Some (Inl e) \<Longrightarrow> error_status e = None"
  unfolding POST_try_def req_json_def ReadableStream_def
  by (auto split: sum.splits if_splits option.splits
      dest: JSON_parse_error_status get_property_error_status fetchGitHubTools_error_status
        TextEncoder_encode_error_status stream_error_status NextResponse_json_error_status)

lemma ordinary_statuses [simp]: "\<not> null_body_status 200" "\<not> null_body_status 500"
  by (simp_all add: null_body_status_def)

subsection \<open>The JSON text of the two response objects\<close>

lemma SerializeJSONProperty_None:
  "SerializeJSONProperty P gap indent v = None \<longleftrightarrow> v = JUndefined"
  by (cases v) auto

lemma JSON_stringify_None: "JSON_stringify P v space = None \<longleftrightarrow> v = JUndefined"
  by (simp add: JSON_stringify_def SerializeJSONProperty_None)

lemmas literal_defs = js_def cu_def
lemmas quote_defs = QuoteJSONString_def quote_unit_def hex4_def is_high_surrogate_def
  is_low_surrogate_def

lemma error_object_text:
  \<open>JSON_stringify P (JObj [(js ''error'', JStr m)]) 0
   = Some (js ''{"error":'' @ QuoteJSONString m @ js ''}'')\<close>
  by (simp add: JSON_stringify_def wrap_items_def literal_defs quote_defs)

lemma messages_object_text:
  \<open>JSON_stringify P
     (JObj [(js ''messages'',
             JArr [JObj [(js ''content'', JStr out), (js ''role'', JStr (js ''assistant''))]])]) 0
   = Some (js ''{"messages":[{"content":'' @ QuoteJSONString out
           @ js '',"role":"assistant"}]}'')\<close>
  by (simp add: JSON_stringify_def wrap_items_def literal_defs quote_defs)

subsection \<open>Evaluation\<close>

lemmas tokenizer_defs = is_ws_def is_digit_def is_lower_def is_number_char_def hex_value_def
  punctuator_def word_token_def escape_char_def skip_minus_def skip_sign_def skip_int_def
  skip_digits1_def skip_frac_def skip_exp_def valid_number_def after_scalar_def
lemmas parser_defs = decimal_def array_index_def CreateDataProperty_def begin_value_def step_def
  JSON_parse_def
lemmas encoding_defs = utf8_def hex_digit_def percent_byte_def uri_unreserved_def
  encodeURIComponent_def usv_utf8_def TextEncoder_encode_def is_high_surrogate_def
  is_low_surrogate_def
lemmas parse_eval = literal_defs tokenizer_defs parser_defs

lemma replicate_two: "replicate 2 x = [x, x]"
  by (simp add: numeral_2_eq_2)

lemmas stringify_defs = JSON_stringify_def wrap_items_def replicate_two

subsection \<open>\<open>JSON.parse\<close> returns JSON values\<close>

lemma set_insert_index: "set (insert_index i k v ps) = insert (k, v) (set ps)"
  by (induction ps) (auto split: option.splits if_splits)

lemma CreateDataProperty_values:
  "p \<in> set (CreateDataProperty ps k v) \<Longrightarrow> snd p = v \<or> p \<in> set ps"
  by (auto simp: CreateDataProperty_def set_insert_index split: option.splits if_splits)

lemma begin_value_ok:
  "\<forall>f \<in> set stk. frame_ok f \<Longrightarrow> begin_value P stk t = Some st \<Longrightarrow> state_ok st"
  by (auto simp: begin_value_def split: token.splits)

lemma step_ok:
  assumes ok: "state_ok st" and st: "step P st t = Some st'"
  shows "state_ok st'"
proof (cases st)
  case (ExpectValue stk)
  with ok st show ?thesis
    by (auto simp: step_def intro: begin_value_ok [of stk P t])
next
  case (ExpectValueOrClose stk)
  with ok have "\<forall>f \<in> set (ArrayFrame [] # stk). frame_ok f" by simp
  from begin_value_ok [OF this, of P t st'] ExpectValueOrClose ok st show ?thesis
    by (auto simp: step_def split: if_splits)
next
  case (ExpectKeyOrClose stk)
  with ok st show ?thesis
    by (auto simp: step_def split: token.splits)
next
  case (ExpectKey ps stk)
  with ok st show ?thesis
    by (auto simp: step_def split: token.splits)
next
  case (ExpectColon ps k stk)
  with ok st show ?thesis
    by (auto simp: step_def split: if_splits)
next
  case (AfterValue v stk)
  show ?thesis
  proof (cases stk)
    case Nil
    with AfterValue st show ?thesis by (simp add: step_def)
  next
    case (Cons f rest)
    show ?thesis
    proof (cases f)
      case (ArrayFrame xs)
      with AfterValue Cons ok st show ?thesis
        by (auto simp: step_def split: token.splits)
    next
      case (ObjectFrame ps k)
      have "\<forall>p \<in> set (CreateDataProperty ps k v). is_json (snd p)"
        using CreateDataProperty_values [of _ ps k v] ok AfterValue Cons ObjectFrame by auto
      with AfterValue Cons ObjectFrame ok st show ?thesis
        by (auto simp: step_def split: token.splits)
    qed
  qed
qed

lemma parse_tokens_ok: "state_ok st \<Longrightarrow> parse_tokens P st ts = Some v \<Longrightarrow> is_json v"
proof (induction ts arbitrary: st)
  case Nil
  then show ?case by (auto split: pstate.splits list.splits)
next
  case (Cons t ts)
  then show ?case by (auto split: option.splits dest: step_ok)
qed

lemma JSON_parse_is_json: "JSON_parse P t = Inr v \<Longrightarrow> is_json v"
  by (auto simp: JSON_parse_def split: option.splits dest: parse_tokens_ok [rotated])

lemma JSON_parse_property_text:
  assumes "JSON_parse P t = Inr (JObj ps)" and "map_of ps k = Some x"
  shows "\<exists>s. JSON_stringify P x space = Some s"
proof -
  have "(k, x) \<in> set ps"
    using assms(2) by (rule map_of_SomeD)
  then have "is_json x"
    using JSON_parse_is_json [OF assms(1)] by auto
  then have "x \<noteq> JUndefined" by auto
  then show ?thesis
    using JSON_stringify_None [of P x space] by auto
qed

subsection \<open>The message adapter\<close>

text \<open>
  C7. The Vercel-shape message \<open>{ role: "user", content: "hi" }\<close>, converted to a
  structured message and back, is \<open>{ content: "hi", role: "user" }\<close>, an object with
  no \<open>tool_calls\<close> field.
\<close>

theorem user_message_round_trip:
  "convertLangChainMessageToVercelMessage
     (convertVercelMessageToLangChainMessage \<lparr>role = js ''user'', content = js ''hi''\<rparr>)
   = Plain (js ''hi'') (js ''user'')
   \<and> \<not> has_tool_calls_field (convertLangChainMessageToVercelMessage
         (convertVercelMessageToLangChainMessage \<lparr>role = js ''user'', content = js ''hi''\<rparr>))"
  by (simp add: convertVercelMessageToLangChainMessage_def
      convertLangChainMessageToVercelMessage_def)

text \<open>
  C8. \<open>convertLangChainMessageToVercelMessage\<close> gives a message of type \<open>human\<close> the
  role \<open>user\<close>; a message of type \<open>ai\<close> the role \<open>assistant\<close>, with the message's
  \<open>tool_calls\<close> attached; and any other message the role that is its type tag. The
  content is carried over unchanged in all three cases.
\<close>

theorem convertLangChainMessageToVercelMessage_cases:
  "(getType m = js ''human'' \<longrightarrow>
      convertLangChainMessageToVercelMessage m = Plain (message_content m) (js ''user''))
   \<and> (getType m = js ''ai'' \<longrightarrow>
      convertLangChainMessageToVercelMessage m
        = WithToolCalls (message_content m) (js ''assistant'') (message_tool_calls m))
   \<and> (getType m \<noteq> js ''human'' \<and> getType m \<noteq> js ''ai'' \<longrightarrow>
      convertLangChainMessageToVercelMessage m = Plain (message_content m) (getType m))
   \<and> shape_content (convertLangChainMessageToVercelMessage m) = message_content m"
  by (auto simp: convertLangChainMessageToVercelMessage_def js_def)

theorem convertLangChainMessageToVercelMessage_cases_witness:
  "convertLangChainMessageToVercelMessage (HumanMessage (js ''hi'') :: (jsstring, jsstring) BaseMessage)
   = Plain (js ''hi'') (js ''user'')
   \<and> convertLangChainMessageToVercelMessage (AIMessage (js ''done'') [js ''search''])
     = WithToolCalls (js ''done'') (js ''assistant'') (Some [js ''search''])
   \<and> convertLangChainMessageToVercelMessage
       (ChatMessage (js ''be brief'') (js ''system'') :: (jsstring, jsstring) BaseMessage)
     = Plain (js ''be brief'') (js ''generic'')"
  using convertLangChainMessageToVercelMessage_cases
      [of "HumanMessage (js ''hi'') :: (jsstring, jsstring) BaseMessage"]
    convertLangChainMessageToVercelMessage_cases [of "AIMessage (js ''done'') [js ''search'']"]
    convertLangChainMessageToVercelMessage_cases
      [of "ChatMessage (js ''be brief'') (js ''system'') :: (jsstring, jsstring) BaseMessage"]
  by (simp add: literal_defs)

subsection \<open>The route handler\<close>

text \<open>
  C1. When the request body is an object whose \<open>user_input\<close> is a string and whose
  \<open>show_intermediate_steps\<close> is falsy (absent, \<open>false\<close>, or any other falsy value),
  and the toolkit answers the request for that input with a success status and a JSON
  body whose \<open>response\<close> is a string \<open>s\<close>, \<open>POST\<close> returns a response of status 200
  whose stream holds exactly one chunk, the UTF-8 encoding of \<open>s\<close>, and is closed.
\<close>

theorem POST_streams_response_text:
  assumes "req_json P req = Inr (JObj ps)"
    and "map_of ps (js ''user_input'') = Some (JStr u)"
    and "get_property (JObj ps) (js ''show_intermediate_steps'') = Inr flag"
    and "\<not> truthy P flag"
    and "encodeURIComponent P (JStr u) = Inr q"
    and "fetch P (js ''http://127.0.0.1:8000/github-toolkit?user_input='' @ q) = Resolved r"
    and "ok r"
    and "response_json P r = Inr t"
    and "get_property t (js ''response'') = Inr (JStr s)"
  shows "POST P req
         = Some (Inr \<lparr>status = 200, body = StreamBody \<lparr>chunks = [usv_utf8 s], closed = True\<rparr>\<rparr>)"
proof -
  have tools: "fetchGitHubTools P (JStr u) = Some (Inr t)"
    using assms(5-8) by (simp add: fetchGitHubTools_def)
  have flag: "\<not> truthy P (case map_of ps (js ''show_intermediate_steps'') of
                             None \<Rightarrow> JUndefined | Some v \<Rightarrow> v)"
    using assms(3,4) by auto
  have "POST_try P req
        = Some (Inr \<lparr>status = 200, body = StreamBody \<lparr>chunks = [usv_utf8 s], closed = True\<rparr>\<rparr>)"
    using assms(1,2,9) tools flag
    by (simp add: POST_try_def ReadableStream_def TextEncoder_encode_def enqueue_def close_def
        StreamingTextResponse_def)
  then show ?thesis by (simp add: POST_def)
qed

theorem POST_streams_response_text_witness:
  \<open>POST (toolkit_at (js ''http://127.0.0.1:8000/github-toolkit?user_input=hi'') 200
           (js ''{"response":"hello"}''))
        \<lparr>request_body = js ''{"user_input":"hi","show_intermediate_steps":false}''\<rparr>
   = Some (Inr \<lparr>status = 200,
          body = StreamBody \<lparr>chunks = [[0x68, 0x65, 0x6C, 0x6C, 0x6F]], closed = True\<rparr>\<rparr>)\<close>
proof -
  let ?P = \<open>toolkit_at (js ''http://127.0.0.1:8000/github-toolkit?user_input=hi'') 200
              (js ''{"response":"hello"}'')\<close>
  let ?req = \<open>\<lparr>request_body = js ''{"user_input":"hi","show_intermediate_steps":false}''\<rparr>\<close>
  let ?ps = "[(js ''user_input'', JStr (js ''hi'')),
              (js ''show_intermediate_steps'', JBool False :: jsstring jsval)]"
  let ?r = \<open>\<lparr>status_code = 200, body_text = js ''{"response":"hello"}''\<rparr>\<close>
  have 1: "req_json ?P ?req = Inr (JObj ?ps)"
    by (simp add: req_json_def parse_eval)
  have 2: "map_of ?ps (js ''user_input'') = Some (JStr (js ''hi''))"
    by (simp add: literal_defs)
  have 3: "get_property (JObj ?ps) (js ''show_intermediate_steps'') = Inr (JBool False)"
    by (simp add: literal_defs)
  have 4: "\<not> truthy ?P (JBool False)" by simp
  have 5: "encodeURIComponent ?P (JStr (js ''hi'')) = Inr (js ''hi'')"
    by (simp add: literal_defs encoding_defs)
  have 6: "fetch ?P (js ''http://127.0.0.1:8000/github-toolkit?user_input='' @ js ''hi'')
           = Resolved ?r"
    by (simp add: toolkit_at_def literal_defs)
  have 7: "ok ?r"
    by (simp add: ok_def)
  have 8: "response_json ?P ?r = Inr (JObj [(js ''response'', JStr (js ''hello''))])"
    by (simp add: response_json_def parse_eval)
  have 9: "get_property (JObj [(js ''response'', JStr (js ''hello'') :: jsstring jsval)])
             (js ''response'') = Inr (JStr (js ''hello''))"
    by simp
  have 10: "usv_utf8 (js ''hello'') = [0x68, 0x65, 0x6C, 0x6C, 0x6F]"
    by (simp add: literal_defs encoding_defs)
  show ?thesis
    using POST_streams_response_text [OF 1 2 3 4 5 6 7 8 9] 10
    by simp
qed

text \<open>
  C2. When the request body is an object whose \<open>show_intermediate_steps\<close> is truthy,
  and the toolkit answers with a success status and a JSON body whose \<open>response\<close> has
  a string field \<open>output\<close> with value \<open>out\<close>, \<open>POST\<close> returns status 200 with the
  JSON text of \<open>{ messages: [{ content: out, role: "assistant" }] }\<close>.
\<close>

theorem POST_returns_messages_json:
  assumes \<open>req_json P req = Inr (JObj ps)\<close>
    and \<open>get_property (JObj ps) (js ''show_intermediate_steps'') = Inr flag\<close>
    and \<open>truthy P flag\<close>
    and \<open>get_property (JObj ps) (js ''user_input'') = Inr userInput\<close>
    and \<open>encodeURIComponent P userInput = Inr q\<close>
    and \<open>fetch P (js ''http://127.0.0.1:8000/github-toolkit?user_input='' @ q) = Resolved r\<close>
    and \<open>ok r\<close>
    and \<open>response_json P r = Inr t\<close>
    and \<open>get_property t (js ''response'') = Inr (JObj rs)\<close>
    and \<open>map_of rs (js ''output'') = Some (JStr out)\<close>
  shows \<open>POST P req
         = Some (Inr \<lparr>status = 200,
                body = JsonBody (js ''{"messages":[{"content":'' @ QuoteJSONString out
                                 @ js '',"role":"assistant"}]}'')\<rparr>)\<close>
proof -
  have tools: "fetchGitHubTools P userInput = Some (Inr t)"
    using assms(5-8) by (simp add: fetchGitHubTools_def)
  have flag: "truthy P (case map_of ps (js ''show_intermediate_steps'') of
                          None \<Rightarrow> JUndefined | Some v \<Rightarrow> v)"
    using assms(2,3) by auto
  have input: "(case map_of ps (js ''user_input'') of None \<Rightarrow> JUndefined | Some v \<Rightarrow> v)
               = userInput"
    using assms(4) by auto
  have "POST_try P req
        = Some (NextResponse_json P
            (JObj [(js ''messages'',
                    JArr [JObj [(js ''content'', JStr out),
                                (js ''role'', JStr (js ''assistant''))]])]) 200)"
    using assms(1,9,10) tools flag input by (simp add: POST_try_def)
  then show ?thesis
    by (simp add: POST_def NextResponse_json_def messages_object_text)
qed

theorem POST_returns_messages_json_witness:
  \<open>POST (toolkit_at (js ''http://127.0.0.1:8000/github-toolkit?user_input=hi'') 200
           (js ''{"response":{"output":"hi"}}''))
        \<lparr>request_body = js ''{"user_input":"hi","show_intermediate_steps":true}''\<rparr>
   = Some (Inr \<lparr>status = 200,
          body = JsonBody (js ''{"messages":[{"content":"hi","role":"assistant"}]}'')\<rparr>)\<close>
proof -
  let ?P = \<open>toolkit_at (js ''http://127.0.0.1:8000/github-toolkit?user_input=hi'') 200
              (js ''{"response":{"output":"hi"}}'')\<close>
  let ?req = \<open>\<lparr>request_body = js ''{"user_input":"hi","show_intermediate_steps":true}''\<rparr>\<close>
  let ?ps = "[(js ''user_input'', JStr (js ''hi'')),
              (js ''show_intermediate_steps'', JBool True :: jsstring jsval)]"
  let ?r = \<open>\<lparr>status_code = 200, body_text = js ''{"response":{"output":"hi"}}''\<rparr>\<close>
  let ?rs = "[(js ''output'', JStr (js ''hi'') :: jsstring jsval)]"
  have 1: "req_json ?P ?req = Inr (JObj ?ps)"
    by (simp add: req_json_def parse_eval)
  have 2: "get_property (JObj ?ps) (js ''show_intermediate_steps'') = Inr (JBool True)"
    by (simp add: literal_defs)
  have 3: "truthy ?P (JBool True)" by simp
  have 4: "get_property (JObj ?ps) (js ''user_input'') = Inr (JStr (js ''hi''))"
    by (simp add: literal_defs)
  have 5: "encodeURIComponent ?P (JStr (js ''hi'')) = Inr (js ''hi'')"
    by (simp add: literal_defs encoding_defs)
  have 6: "fetch ?P (js ''http://127.0.0.1:8000/github-toolkit?user_input='' @ js ''hi'')
           = Resolved ?r"
    by (simp add: toolkit_at_def literal_defs)
  have 7: "ok ?r"
    by (simp add: ok_def)
  have 8: "response_json ?P ?r = Inr (JObj [(js ''response'', JObj ?rs)])"
    by (simp add: response_json_def parse_eval)
  have 9: "get_property (JObj [(js ''response'', JObj ?rs)]) (js ''response'') = Inr (JObj ?rs)"
    by simp
  have 10: "map_of ?rs (js ''output'') = Some (JStr (js ''hi''))"
    by simp
  show ?thesis
    using POST_returns_messages_json [OF 1 2 3 4 5 6 7 8 9 10]
    by (simp add: literal_defs quote_defs)
qed

text \<open>
  C3. When the request body parses to a value whose \<open>user_input\<close> can be read and
  encoded, and the toolkit answers with a status outside 200..299 (404, say),
  \<open>fetchGitHubTools\<close> throws \<open>Error("Failed to fetch GitHub Toolkit")\<close>, which has no
  status, and \<open>POST\<close> returns the JSON body \<open>{ error: "Failed to fetch GitHub Toolkit" }\<close>
  with status 500.
\<close>

theorem POST_toolkit_failure_is_500:
  assumes \<open>req_json P req = Inr parsed\<close>
    and \<open>get_property parsed (js ''user_input'') = Inr userInput\<close>
    and \<open>encodeURIComponent P userInput = Inr q\<close>
    and \<open>fetch P (js ''http://127.0.0.1:8000/github-toolkit?user_input='' @ q) = Resolved r\<close>
    and \<open>\<not> ok r\<close>
  shows \<open>fetchGitHubTools P userInput = Some (Inl (Error (js ''Failed to fetch GitHub Toolkit'')))
         \<and> error_status (Error (js ''Failed to fetch GitHub Toolkit'')) = None
         \<and> POST P req
           = Some (Inr \<lparr>status = 500,
                  body = JsonBody (js ''{"error":"Failed to fetch GitHub Toolkit"}'')\<rparr>)\<close>
proof -
  have tools: "fetchGitHubTools P userInput = Some (Inl (Error (js ''Failed to fetch GitHub Toolkit'')))"
    using assms(3-5) by (simp add: fetchGitHubTools_def)
  obtain flag where "get_property parsed (js ''show_intermediate_steps'') = Inr flag"
    using get_property_other_key [OF assms(2)] by blast
  then have "POST_try P req = Some (Inl (Error (js ''Failed to fetch GitHub Toolkit'')))"
    using assms(1,2) tools by (simp add: POST_try_def)
  then have "POST P req
             = Some (NextResponse_json P
                 (JObj [(js ''error'', JStr (js ''Failed to fetch GitHub Toolkit''))]) 500)"
    by (simp add: POST_def POST_catch_def)
  then have \<open>POST P req
             = Some (Inr \<lparr>status = 500,
                    body = JsonBody (js ''{"error":''
                      @ QuoteJSONString (js ''Failed to fetch GitHub Toolkit'') @ js ''}'')\<rparr>)\<close>
    by (simp add: NextResponse_json_def error_object_text)
  then show ?thesis
    using tools by (simp add: literal_defs quote_defs)
qed

theorem POST_toolkit_failure_is_500_witness:
  \<open>POST (toolkit_at (js ''http://127.0.0.1:8000/github-toolkit?user_input=hi'') 404
           (js ''Not Found''))
        \<lparr>request_body = js ''{"user_input":"hi"}''\<rparr>
   = Some (Inr \<lparr>status = 500,
          body = JsonBody (js ''{"error":"Failed to fetch GitHub Toolkit"}'')\<rparr>)\<close>
proof -
  let ?P = \<open>toolkit_at (js ''http://127.0.0.1:8000/github-toolkit?user_input=hi'') 404
              (js ''Not Found'')\<close>
  let ?req = \<open>\<lparr>request_body = js ''{"user_input":"hi"}''\<rparr>\<close>
  let ?r = \<open>\<lparr>status_code = 404, body_text = js ''Not Found''\<rparr>\<close>
  have 1: "req_json ?P ?req = Inr (JObj [(js ''user_input'', JStr (js ''hi''))])"
    by (simp add: req_json_def parse_eval)
  have 2: "get_property (JObj [(js ''user_input'', JStr (js ''hi'') :: jsstring jsval)])
             (js ''user_input'') = Inr (JStr (js ''hi''))"
    by simp
  have 3: "encodeURIComponent ?P (JStr (js ''hi'')) = Inr (js ''hi'')"
    by (simp add: literal_defs encoding_defs)
  have 4: "fetch ?P (js ''http://127.0.0.1:8000/github-toolkit?user_input='' @ js ''hi'')
           = Resolved ?r"
    by (simp add: toolkit_at_def literal_defs)
  have 5: "\<not> ok ?r"
    by (simp add: ok_def)
  show ?thesis
    using POST_toolkit_failure_is_500 [OF 1 2 3 4 5] by simp
qed

text \<open>
  C4. \<open>POST\<close> never throws. Whatever exception the \<open>try\<close> block raises (while parsing
  the body, in the fetch, or while reshaping the reply), the handler returns the JSON
  body \<open>{ error: message }\<close> of that exception; no such exception has a status, so the
  response status is 500. The \<open>catch\<close> clause answers with the error's own status when
  it has one with which a response with a body can be built (a status in 200..599
  other than 204, 205 and 304), and with 500 when it has none. The handler fails to
  return only when the toolkit never answers.
\<close>

theorem POST_catches_every_exception:
  \<open>(\<forall>e. POST P req \<noteq> Some (Inl e))
   \<and> (POST P req = None \<longleftrightarrow> POST_try P req = None)
   \<and> (\<forall>e. POST_try P req = Some (Inl e) \<longrightarrow>
          error_status e = None
          \<and> POST P req
            = Some (Inr \<lparr>status = 500,
                         body = JsonBody (js ''{"error":'' @ QuoteJSONString (error_message e)
                                          @ js ''}'')\<rparr>))
   \<and> (\<forall>e. error_status e = None \<longrightarrow>
          POST_catch P e
          = Inr \<lparr>status = 500,
                 body = JsonBody (js ''{"error":'' @ QuoteJSONString (error_message e)
                                  @ js ''}'')\<rparr>)
   \<and> (\<forall>e s. error_status e = Some s \<and> 200 \<le> s \<and> s \<le> 599
            \<and> s \<noteq> 204 \<and> s \<noteq> 205 \<and> s \<noteq> 304 \<longrightarrow>
          POST_catch P e
          = Inr \<lparr>status = s,
                 body = JsonBody (js ''{"error":'' @ QuoteJSONString (error_message e)
                                  @ js ''}'')\<rparr>)\<close>
proof -
  have handler: \<open>POST_catch P e
      = Inr \<lparr>status = (case error_status e of None \<Rightarrow> 500 | Some s \<Rightarrow> s),
             body = JsonBody (js ''{"error":'' @ QuoteJSONString (error_message e) @ js ''}'')\<rparr>\<close>
    if "200 \<le> (case error_status e of None \<Rightarrow> 500 | Some s \<Rightarrow> s)"
      and "(case error_status e of None \<Rightarrow> 500 | Some s \<Rightarrow> s) \<le> (599 :: nat)"
      and "\<not> null_body_status (case error_status e of None \<Rightarrow> 500 | Some s \<Rightarrow> s)" for e
    using that by (simp add: POST_catch_def NextResponse_json_def error_object_text)
  have caught: \<open>error_status e = None
      \<and> POST P req
        = Some (Inr \<lparr>status = 500,
                     body = JsonBody (js ''{"error":'' @ QuoteJSONString (error_message e)
                                      @ js ''}'')\<rparr>)\<close>
    if "POST_try P req = Some (Inl e)" for e
    using that POST_try_error_status [OF that] handler [of e] by (simp add: POST_def)
  have returns: "\<forall>e. POST P req \<noteq> Some (Inl e)"
  proof (cases "POST_try P req")
    case None
    then show ?thesis by (simp add: POST_def)
  next
    case (Some outcome)
    show ?thesis
    proof (cases outcome)
      case (Inl e)
      with Some caught [of e] show ?thesis by simp
    next
      case (Inr r)
      with Some show ?thesis by (simp add: POST_def)
    qed
  qed
  have waits: "POST P req = None \<longleftrightarrow> POST_try P req = None"
    by (simp add: POST_def split: option.splits sum.splits)
  have \<open>\<forall>e. error_status e = None \<longrightarrow>
      POST_catch P e
      = Inr \<lparr>status = 500,
             body = JsonBody (js ''{"error":'' @ QuoteJSONString (error_message e) @ js ''}'')\<rparr>\<close>
    using handler by simp
  moreover have \<open>\<forall>e s. error_status e = Some s \<and> 200 \<le> s \<and> s \<le> 599
        \<and> s \<noteq> 204 \<and> s \<noteq> 205 \<and> s \<noteq> 304 \<longrightarrow>
      POST_catch P e
      = Inr \<lparr>status = s,
             body = JsonBody (js ''{"error":'' @ QuoteJSONString (error_message e) @ js ''}'')\<rparr>\<close>
    using handler by (auto simp: null_body_status_def)
  ultimately show ?thesis using caught returns waits by blast
qed

text \<open>
  Three requests whose \<open>try\<close> block throws: a body that is not JSON, a fetch that is
  rejected, and a toolkit reply \<open>null\<close>, on which the read of \<open>response\<close> throws; and
  the \<open>catch\<close> clause on an error that carries the status 404.
\<close>

theorem POST_catches_every_exception_witness:
  \<open>POST (toolkit_at (js ''http://127.0.0.1:8000/github-toolkit?user_input=hi'') 200 (js ''null''))
        \<lparr>request_body = js ''user_input=hi''\<rparr>
   = Some (Inr \<lparr>status = 500,
                body = JsonBody (js ''{"error":"Unexpected token in JSON"}'')\<rparr>)
   \<and> POST (toolkit_at (js ''http://127.0.0.1:8000/github-toolkit?user_input=hi'') 200 (js ''null''))
        \<lparr>request_body = js ''{"user_input":"bye"}''\<rparr>
   = Some (Inr \<lparr>status = 500, body = JsonBody (js ''{"error":"fetch failed"}'')\<rparr>)
   \<and> POST (toolkit_at (js ''http://127.0.0.1:8000/github-toolkit?user_input=hi'') 200 (js ''null''))
        \<lparr>request_body = js ''{"user_input":"hi"}''\<rparr>
   = Some (Inr \<lparr>status = 500,
                body = JsonBody (js ''{"error":"Cannot read properties of null (reading ''
                                 @ [0x27] @ js ''response'' @ [0x27] @ js '')"}'')\<rparr>)
   \<and> POST_catch
       (toolkit_at (js ''http://127.0.0.1:8000/github-toolkit?user_input=hi'') 200 (js ''null''))
       (Thrown (js ''Error'') (js ''gone'') (Some 404))
   = Inr \<lparr>status = 404, body = JsonBody (js ''{"error":"gone"}'')\<rparr>\<close>
proof -
  let ?P = \<open>toolkit_at (js ''http://127.0.0.1:8000/github-toolkit?user_input=hi'') 200 (js ''null'')\<close>
  have 1: \<open>POST_try ?P \<lparr>request_body = js ''user_input=hi''\<rparr>
           = Some (Inl (SyntaxError (js ''Unexpected token in JSON'')))\<close>
    by (simp add: POST_try_def req_json_def parse_eval)
  have 2: \<open>POST_try ?P \<lparr>request_body = js ''{"user_input":"bye"}''\<rparr>
           = Some (Inl (TypeError (js ''fetch failed'')))\<close>
    by (simp add: POST_try_def req_json_def fetchGitHubTools_def toolkit_at_def parse_eval
        encoding_defs)
  have 3: \<open>POST_try ?P \<lparr>request_body = js ''{"user_input":"hi"}''\<rparr>
           = Some (Inl (TypeError (js ''Cannot read properties of null (reading ''
                                   @ [0x27] @ js ''response'' @ [0x27] @ js '')'')))\<close>
    by (simp add: POST_try_def req_json_def fetchGitHubTools_def response_json_def ok_def
        toolkit_at_def parse_eval encoding_defs)
  have 4: \<open>POST_catch ?P (Thrown (js ''Error'') (js ''gone'') (Some 404))
           = Inr \<lparr>status = 404, body = JsonBody (js ''{"error":"gone"}'')\<rparr>\<close>
    using POST_catches_every_exception
      [of ?P \<open>\<lparr>request_body = js ''user_input=hi''\<rparr>\<close>,
       THEN conjunct2, THEN conjunct2, THEN conjunct2, THEN conjunct2, rule_format,
       of \<open>Thrown (js ''Error'') (js ''gone'') (Some 404)\<close> 404]
    by (simp add: literal_defs quote_defs)
  show ?thesis
    using POST_catches_every_exception [of ?P \<open>\<lparr>request_body = js ''user_input=hi''\<rparr>\<close>]
      POST_catches_every_exception [of ?P \<open>\<lparr>request_body = js ''{"user_input":"bye"}''\<rparr>\<close>]
      POST_catches_every_exception [of ?P \<open>\<lparr>request_body = js ''{"user_input":"hi"}''\<rparr>\<close>]
      1 2 3 4
    by (simp add: literal_defs quote_defs)
qed




subsection \<open>The tool response renderer\<close>

text \<open>
  C5. When the content of the message parses as JSON to an object with the fields
  \<open>tool_name\<close>, \<open>tool_input\<close> and \<open>tool_output\<close>, \<open>IntermediateStep\<close> logs nothing and
  returns the tool execution view, whose three expressions are the value of
  \<open>tool_name\<close>, the JSON text of \<open>tool_input\<close> with an indentation of two blanks, and
  \<open>tool_output\<close> itself when it is a string, its JSON text with the same indentation
  otherwise.
\<close>

theorem IntermediateStep_renders_tool_data:
  assumes "JSON_parse P (content message) = Inr (JObj ps)"
    and "map_of ps (js ''tool_name'') = Some name"
    and "map_of ps (js ''tool_input'') = Some input"
    and "map_of ps (js ''tool_output'') = Some output"
  shows "\<exists>input_text output_shown.
           JSON_stringify P input 2 = Some input_text
         \<and> (case output of
               JStr s \<Rightarrow> output_shown = s
             | _ \<Rightarrow> JSON_stringify P output 2 = Some output_shown)
         \<and> IntermediateStep P message
           = \<lparr>console = [],
              returned = Some (tool_execution_view name (JStr input_text) (JStr output_shown))\<rparr>
         \<and> expressions (tool_execution_view name (JStr input_text) (JStr output_shown))
           = [name, JStr input_text, JStr output_shown]"
proof -
  obtain input_text where input_text: "JSON_stringify P input 2 = Some input_text"
    using JSON_parse_property_text [OF assms(1,3)] by blast
  obtain output_text where output_text: "JSON_stringify P output 2 = Some output_text"
    using JSON_parse_property_text [OF assms(1,4)] by blast
  define output_shown where "output_shown = (case output of JStr s \<Rightarrow> s | _ \<Rightarrow> output_text)"
  have shown: "(case output of JStr s \<Rightarrow> output_shown = s
                | _ \<Rightarrow> JSON_stringify P output 2 = Some output_shown)"
    using output_text by (cases "output") (simp_all add: output_shown_def)
  have child: "(case output of JStr s \<Rightarrow> JStr s | _ \<Rightarrow> stringified P output 2)
               = JStr output_shown"
    using output_text by (cases "output") (simp_all add: output_shown_def stringified_def)
  have "IntermediateStep_try P message
        = Inr (tool_execution_view name (JStr input_text) (JStr output_shown))"
    using assms input_text child by (simp add: IntermediateStep_try_def stringified_def)
  then have "IntermediateStep P message
             = \<lparr>console = [],
                returned = Some (tool_execution_view name (JStr input_text) (JStr output_shown))\<rparr>"
    by (simp add: IntermediateStep_def)
  moreover have "expressions (tool_execution_view name (JStr input_text) (JStr output_shown))
                 = [name, JStr input_text, JStr output_shown]"
    by (simp add: tool_execution_view_def)
  ultimately show ?thesis
    using input_text shown by blast
qed

theorem IntermediateStep_renders_tool_data_witness:
  \<open>IntermediateStep (toolkit_at [] 200 [])
     \<lparr>role = js ''system'',
      content = js ''{"tool_name":"search","tool_input":{"q":"x"},"tool_output":"result"}''\<rparr>
   = \<lparr>console = [],
      returned = Some (tool_execution_view (JStr (js ''search''))
                   (JStr (js ''{'' @ [0x0A] @ js ''  "q": "x"'' @ [0x0A] @ js ''}''))
                   (JStr (js ''result'')))\<rparr>
   \<and> expressions (tool_execution_view (JStr (js ''search'') :: jsstring jsval)
                   (JStr (js ''{'' @ [0x0A] @ js ''  "q": "x"'' @ [0x0A] @ js ''}''))
                   (JStr (js ''result'')))
     = [JStr (js ''search''),
        JStr (js ''{'' @ [0x0A] @ js ''  "q": "x"'' @ [0x0A] @ js ''}''),
        JStr (js ''result'')]\<close>
proof -
  let ?P = "toolkit_at [] 200 []"
  let ?m = \<open>\<lparr>role = js ''system'',
      content = js ''{"tool_name":"search","tool_input":{"q":"x"},"tool_output":"result"}''\<rparr>\<close>
  let ?input = "JObj [(js ''q'', JStr (js ''x''))] :: jsstring jsval"
  let ?ps = "[(js ''tool_name'', JStr (js ''search'')), (js ''tool_input'', ?input),
              (js ''tool_output'', JStr (js ''result''))]"
  have 1: "JSON_parse ?P (content ?m) = Inr (JObj ?ps)"
    by (simp add: parse_eval)
  have 2: "map_of ?ps (js ''tool_name'') = Some (JStr (js ''search''))"
    by (simp add: literal_defs)
  have 3: "map_of ?ps (js ''tool_input'') = Some ?input"
    by (simp add: literal_defs)
  have 4: "map_of ?ps (js ''tool_output'') = Some (JStr (js ''result''))"
    by (simp add: literal_defs)
  have 5: \<open>JSON_stringify ?P ?input 2 = Some (js ''{'' @ [0x0A] @ js ''  "q": "x"'' @ [0x0A] @ js ''}'')\<close>
    by (simp add: stringify_defs literal_defs quote_defs)
  show ?thesis
    using IntermediateStep_renders_tool_data [OF 1 2 3 4] 5 by auto
qed

text \<open>
  C6. When the content of the message is not valid JSON, \<open>IntermediateStep\<close> does not
  throw: it logs the error of \<open>JSON.parse\<close> under the label \<open>Error parsing tool data:\<close>
  and returns \<open>null\<close>.
\<close>

theorem IntermediateStep_invalid_json:
  assumes "JSON_parse P (content message) = Inl e"
  shows "IntermediateStep P message
         = \<lparr>console = [(js ''Error parsing tool data:'', e)], returned = None\<rparr>"
  using assms by (simp add: IntermediateStep_def IntermediateStep_try_def)

theorem IntermediateStep_invalid_json_witness:
  \<open>IntermediateStep (toolkit_at [] 200 [])
     \<lparr>role = js ''system'', content = js ''{"tool_name":"search",''\<rparr>
   = \<lparr>console = [(js ''Error parsing tool data:'', SyntaxError (js ''Unexpected token in JSON''))],
      returned = None\<rparr>\<close>
proof -
  have \<open>JSON_parse (toolkit_at [] 200 [])
          (content \<lparr>role = js ''system'', content = js ''{"tool_name":"search",''\<rparr>)
        = Inl (SyntaxError (js ''Unexpected token in JSON''))\<close>
    by (simp add: parse_eval)
  from IntermediateStep_invalid_json [OF this] show ?thesis .
qed

text \<open>
  C9. The content \<open>null\<close> is valid JSON and parses to \<open>null\<close>; the read of
  \<open>tool_name\<close> on it throws inside the \<open>try\<close> block, and \<open>IntermediateStep\<close> logs that
  \<open>TypeError\<close> and returns \<open>null\<close>. Valid JSON is not enough for an element to be
  returned.
\<close>

theorem IntermediateStep_null_content:
  \<open>JSON_parse P (js ''null'') = Inr JNull
   \<and> IntermediateStep P \<lparr>role = r, content = js ''null''\<rparr>
     = \<lparr>console = [(js ''Error parsing tool data:'',
                    TypeError (js ''Cannot read properties of null (reading '' @ [0x27]
                               @ js ''tool_name'' @ [0x27] @ js '')''))],
        returned = None\<rparr>\<close>
proof -
  have parsed: "JSON_parse P (js ''null'') = Inr JNull"
    by (simp add: parse_eval)
  then show ?thesis
    by (simp add: IntermediateStep_def IntermediateStep_try_def)
qed

end
